theory Spec2Isabelle
  imports Complex_Main
begin

section \<open>PyDDSBB demo applications: the session controller and its helpers\<close>

text \<open>
  The development embeds \<^verbatim>\<open>app_pyddsbb_minimize.py\<close> (the 1-D global optimisation
  demo) and the function \<^verbatim>\<open>run_pyddsbb\<close> of \<^verbatim>\<open>app_pyddsbb.py\<close> (the fitting demo).
  Both scripts are glue around the external optimiser library; the library, the clock
  and the pseudorandom generator are not part of the repository and enter the model as
  parameters. Python floats are modelled as reals, Python integers as \<open>int\<close>.
\<close>

subsection \<open>Test functions (lines 17-46 of the minimisation demo)\<close>








text \<open>
  The keys of the dictionary \<^verbatim>\<open>FUNCTIONS\<close>. The select box offers exactly these
  seven keys, so the key is an enumeration and the lookup \<^verbatim>\<open>FUNCTIONS[kind]\<close>
  cannot fail.
\<close>

datatype function_kind =
  KSin2pix | KSinCombo | KPoly | KGaussBump | KPiecewise | KRational | KLinear


subsection \<open>Errors\<close>

text \<open>
  \<open>LibraryError e\<close> is an exception \<open>e\<close> raised inside the optimiser library,
  \<open>IndexError\<close> is Python's error for \<^verbatim>\<open>xs[0]\<close> on an empty sequence, and
  \<open>ImportError\<close> is raised by \<^verbatim>\<open>run_pyddsbb\<close> when the library is missing.
\<close>

datatype 'e error = LibraryError 'e | IndexError | ImportError

subsection \<open>The noisy objective (lines 50-54 and 112-115)\<close>

text \<open>
  \<^verbatim>\<open>rng.normal(0.0, noise_std)\<close> draws from the generator and advances it. The
  generator is a parameter: \<open>normal loc scale g\<close> returns the draw and the new state.
\<close>

type_synonym 'g normal_draw = "real \<Rightarrow> real \<Rightarrow> 'g \<Rightarrow> real \<times> 'g"

definition noisy_eval ::
  "'g normal_draw \<Rightarrow> (real \<Rightarrow> real) \<Rightarrow> real \<Rightarrow> real \<Rightarrow> 'g \<Rightarrow> real \<times> 'g" where
  "noisy_eval normal f x noise_std rng =
     (let v = f x in
      if noise_std > 0
      then (let (d, rng') = normal 0 noise_std rng in (v + d, rng'))
      else (v, rng))"

text \<open>
  The closure \<^verbatim>\<open>objective\<close> captures \<^verbatim>\<open>f\<close>, \<^verbatim>\<open>noise_std\<close> and \<^verbatim>\<open>rng\<close>. The
  script builds \<^verbatim>\<open>rng = np.random.default_rng(int(seed))\<close> anew on every execution
  (line 110), so the captured generator is represented by the seed it was built from.
\<close>

record objective =
  obj_f :: "real \<Rightarrow> real"
  obj_noise_std :: real
  obj_seed :: int

text \<open>
  One call \<^verbatim>\<open>objective(x_arr)\<close> with the generator in state \<open>rng\<close>:
  \<^verbatim>\<open>x_arr[0]\<close> raises on an empty argument.
\<close>

definition objective_call ::
  "'g normal_draw \<Rightarrow> objective \<Rightarrow> real list \<Rightarrow> 'g \<Rightarrow> ('e error + real) \<times> 'g" where
  "objective_call normal obj x_arr rng =
     (case x_arr of
        [] \<Rightarrow> (Inl IndexError, rng)
      | xval # _ \<Rightarrow>
          (let (v, rng') = noisy_eval normal (obj_f obj) xval (obj_noise_std obj) rng
           in (Inr v, rng')))"

text \<open>
  Repeated calls of \<^verbatim>\<open>noisy_eval\<close> on a sequence of inputs share one generator: each
  call starts from the state the previous call left.
\<close>

fun noisy_evals ::
  "'g normal_draw \<Rightarrow> (real \<Rightarrow> real) \<Rightarrow> real list \<Rightarrow> real \<Rightarrow> 'g \<Rightarrow> real list \<times> 'g" where
  "noisy_evals normal f [] noise_std rng = ([], rng)"
| "noisy_evals normal f (x # xs) noise_std rng =
     (let (v, rng1) = noisy_eval normal f x noise_std rng;
          (vs, rng2) = noisy_evals normal f xs noise_std rng1
      in (v # vs, rng2))"

subsection \<open>Widget values, configuration and session state\<close>

datatype split_method = Equal_bisection | Golden_section
datatype variable_selection = Longest_side | Svr_var_select
datatype sense = Minimize | Maximize

text \<open>
  The values the sidebar widgets return in one execution of the script (lines 82-107).
  The field names are the script's variable names.
\<close>

record inputs =
  kind :: function_kind
  x_min :: real
  x_max :: real
  seed :: int
  noise_std :: real
  n_init :: int
  split_method :: split_method
  variable_selection :: variable_selection
  multifidelity :: bool
  sense :: sense
  abs_tol :: real
  rel_tol :: real
  min_bound :: real
  sampling_limit :: int
  time_limit :: real
  auto_run :: bool
  run_btn :: bool
  resume_btn :: bool

text \<open>
  The ranges the widgets enforce (slider and number-input bounds of lines 86-102).
\<close>

definition widget_ranges :: "inputs \<Rightarrow> bool" where
  "widget_ranges inp \<longleftrightarrow>
     - 3 \<le> x_min inp \<and> x_min inp \<le> x_max inp \<and> x_max inp \<le> 3 \<and>
     0 \<le> seed inp \<and> seed inp \<le> 999999 \<and>
     0 \<le> noise_std inp \<and> noise_std inp \<le> 0.5 \<and>
     3 \<le> n_init inp \<and> n_init inp \<le> 200 \<and>
     10 \<le> sampling_limit inp \<and> sampling_limit inp \<le> 20000 \<and>
     1 \<le> time_limit inp \<and> time_limit inp \<le> 36000"

text \<open>The dictionary \<^verbatim>\<open>stop_option\<close> (lines 122-128); \<open>so_k\<close> is the key \<open>k\<close>.\<close>

record stop_option =
  so_absolute_tolerance :: real
  so_relative_tolerance :: real
  so_minimum_bound :: real
  so_sampling_limit :: int
  so_time_limit :: real

definition stop_option_of :: "inputs \<Rightarrow> stop_option" where
  "stop_option_of inp =
     \<lparr> so_absolute_tolerance = abs_tol inp,
       so_relative_tolerance = rel_tol inp,
       so_minimum_bound = min_bound inp,
       so_sampling_limit = sampling_limit inp,
       so_time_limit = time_limit inp \<rparr>"

text \<open>The dictionary \<^verbatim>\<open>cfg\<close> (lines 138-140); \<open>cfg_k\<close> is the key \<open>k\<close>.\<close>

record cfg =
  cfg_kind :: function_kind
  cfg_x_min :: real
  cfg_x_max :: real
  cfg_seed :: int
  cfg_noise_std :: real
  cfg_n_init :: int
  cfg_split_method :: split_method
  cfg_variable_selection :: variable_selection
  cfg_multifidelity :: bool
  cfg_stop_option :: stop_option
  cfg_sense :: sense

definition cfg_of :: "inputs \<Rightarrow> cfg" where
  "cfg_of inp =
     \<lparr> cfg_kind = kind inp, cfg_x_min = x_min inp, cfg_x_max = x_max inp,
       cfg_seed = seed inp, cfg_noise_std = noise_std inp, cfg_n_init = n_init inp,
       cfg_split_method = split_method inp,
       cfg_variable_selection = variable_selection inp,
       cfg_multifidelity = multifidelity inp,
       cfg_stop_option = stop_option_of inp,
       cfg_sense = sense inp \<rparr>"

text \<open>The dictionary stored under \<^verbatim>\<open>st.session_state.result\<close> (line 174);
  \<open>res_k\<close> is the key \<open>k\<close>.\<close>

record result =
  res_xopt :: real
  res_yopt :: real
  res_elapsed :: real

text \<open>
  The three keys of \<^verbatim>\<open>st.session_state\<close> the script uses. A key that is absent and
  a key that holds \<^verbatim>\<open>None\<close> are the same to the script (lines 131-136 store
  \<^verbatim>\<open>None\<close> under an absent key), so both are \<open>None\<close> here. The solver is a reference
  \<open>'h\<close> to an object of the library; the object's state lives in the world \<open>'w\<close>.
\<close>

record 'h session_state =
  solver :: "'h option"
  last_cfg :: "cfg option"
  result :: "result option"

definition initial_session :: "'h session_state" where
  "initial_session = \<lparr> solver = None, last_cfg = None, result = None \<rparr>"

subsection \<open>The optimiser library as a parameter\<close>

text \<open>The arguments of the constructor \<^verbatim>\<open>PyDDSBB.DDSBB(...)\<close>. The fitting demo
  does not pass \<^verbatim>\<open>sense\<close>, which is \<open>None\<close> then.\<close>

record ddsbb_args =
  arg_n_init :: int
  arg_split_method :: split_method
  arg_variable_selection :: variable_selection
  arg_multifidelity :: bool
  arg_stop_option :: stop_option
  arg_sense :: "sense option"

text \<open>
  The operations of the library the scripts call. \<open>'h\<close> are references to solver
  objects, \<open>'w\<close> is the world (the state of all library objects and the clock), \<open>'e\<close>
  the library's exceptions, \<open>'p\<close> problem objects and \<open>'o\<close> objective callables.
  \<^verbatim>\<open>optimize\<close> and \<^verbatim>\<open>resume\<close> change the world and may raise;
  \<^verbatim>\<open>add_objective\<close> and \<^verbatim>\<open>add_variable\<close> return the extended problem or raise.
\<close>

record ('h, 'w, 'e, 'p, 'o) pyddsbb =
  Problem :: 'p
  add_objective :: "'o \<Rightarrow> sense \<Rightarrow> 'p \<Rightarrow> 'e + 'p"
  add_variable :: "real \<Rightarrow> real \<Rightarrow> 'p \<Rightarrow> 'e + 'p"
  DDSBB :: "ddsbb_args \<Rightarrow> 'w \<Rightarrow> 'h \<times> 'w"
  optimize :: "'h \<Rightarrow> 'p \<Rightarrow> 'w \<Rightarrow> 'e option \<times> 'w"
  resume :: "'h \<Rightarrow> stop_option \<Rightarrow> 'w \<Rightarrow> 'e option \<times> 'w"
  get_optimum :: "'h \<Rightarrow> 'w \<Rightarrow> real"
  get_optimizer :: "'h \<Rightarrow> 'w \<Rightarrow> real list"

text \<open>
  The library calls an execution issues, in order. The scripts do not keep such a
  list; it is returned beside the state so that statements about which calls happen,
  and on which solver, can be written down.
\<close>

datatype ('h, 'p) call =
  CallDDSBB ddsbb_args
| CallOptimize 'h 'p
| CallResume 'h stop_option
| CallGetOptimum 'h
| CallGetOptimizer 'h

subsection \<open>Building the problem (lines 112-120)\<close>



subsection \<open>The controller (lines 142-174)\<close>

definition new_solver_args :: "inputs \<Rightarrow> ddsbb_args" where
  "new_solver_args inp =
     \<lparr> arg_n_init = n_init inp, arg_split_method = split_method inp,
       arg_variable_selection = variable_selection inp,
       arg_multifidelity = multifidelity inp,
       arg_stop_option = stop_option_of inp, arg_sense = Some (sense inp) \<rparr>"

definition new_solver ::
  "('h, 'w, 'e, 'p, 'o) pyddsbb \<Rightarrow> inputs \<Rightarrow> 'w \<Rightarrow> 'h \<times> 'w" where
  "new_solver lib inp w = DDSBB lib (new_solver_args inp) w"

text \<open>
  Python's \<^verbatim>\<open>max(a, b)\<close> returns \<open>b\<close> only when it is greater than \<open>a\<close>, and
  \<^verbatim>\<open>int(x)\<close> truncates a float towards zero.
\<close>

definition py_max :: "real \<Rightarrow> real \<Rightarrow> real" where
  "py_max a b = (if b > a then b else a)"

definition py_int :: "real \<Rightarrow> int" where
  "py_int x = (if x \<ge> 0 then \<lfloor>x\<rfloor> else \<lceil>x\<rceil>)"

text \<open>Lines 161-163: the budget of a resume.\<close>

definition extra_sampling :: "inputs \<Rightarrow> int" where
  "extra_sampling inp = py_int (py_max 100 (0.5 * real_of_int (sampling_limit inp)))"

definition new_stop :: "inputs \<Rightarrow> stop_option" where
  "new_stop inp =
     (stop_option_of inp)
       \<lparr> so_sampling_limit := so_sampling_limit (stop_option_of inp) + extra_sampling inp \<rparr>"

text \<open>
  How an execution ends: it runs to the end of the controller, it is stopped by
  \<^verbatim>\<open>st.stop()\<close> (line 80), or an exception leaves it.
\<close>

datatype 'e outcome = Done | Stopped | Raised "'e error"

text \<open>
  Lines 152-164, the three-way branch. It returns the exception of the resume call if
  there is one, the flag \<^verbatim>\<open>should_run\<close>, the session state, the world and the
  calls issued. The branches are tried in the order of the source.
\<close>

definition dispatch ::
  "('h, 'w, 'e, 'p, 'o) pyddsbb \<Rightarrow> inputs \<Rightarrow> 'h session_state \<Rightarrow> 'w \<Rightarrow>
     'e option \<times> bool \<times> 'h session_state \<times> 'w \<times> ('h, 'p) call list" where
  "dispatch lib inp st w =
     (if run_btn inp then
        (let (h, w1) = new_solver lib inp w
         in (None, True, st\<lparr>solver := Some h\<rparr>, w1, [CallDDSBB (new_solver_args inp)]))
      else if auto_run inp \<and> Some (cfg_of inp) \<noteq> last_cfg st then
        (let (h, w1) = new_solver lib inp w
         in (None, True, st\<lparr>solver := Some h\<rparr>, w1, [CallDDSBB (new_solver_args inp)]))
      else if resume_btn inp \<and> solver st \<noteq> None then
        (case solver st of
           None \<Rightarrow> (None, False, st, w, [])
         | Some h \<Rightarrow>
             (let (e, w1) = resume lib h (new_stop inp) w
              in (e, False, st, w1, [CallResume h (new_stop inp)])))
      else (None, False, st, w, []))"

text \<open>
  Lines 166-174, the run. \<open>time_time\<close> reads the clock of the world
  (\<^verbatim>\<open>time.time()\<close>). The stored configuration is written before the optimiser
  is called, the result only after both read-backs; \<^verbatim>\<open>get_optimizer()[0]\<close> raises
  on an empty sequence.
\<close>

definition run_block ::
  "('h, 'w, 'e, 'p, 'o) pyddsbb \<Rightarrow> ('w \<Rightarrow> real) \<Rightarrow> inputs \<Rightarrow> 'p \<Rightarrow> bool \<Rightarrow>
     'h session_state \<Rightarrow> 'w \<Rightarrow> 'e outcome \<times> 'h session_state \<times> 'w \<times> ('h, 'p) call list" where
  "run_block lib time_time inp model should_run st w =
     (case solver st of
        None \<Rightarrow> (Done, st, w, [])
      | Some h \<Rightarrow>
          if \<not> should_run then (Done, st, w, [])
          else
            (let st1 = st\<lparr>last_cfg := Some (cfg_of inp)\<rparr>;
                 start = time_time w;
                 (e, w1) = optimize lib h model w
             in case e of
                  Some x \<Rightarrow> (Raised (LibraryError x), st1, w1, [CallOptimize h model])
                | None \<Rightarrow>
                    (let elapsed = time_time w1 - start;
                         yopt = get_optimum lib h w1
                     in case get_optimizer lib h w1 of
                          [] \<Rightarrow>
                            (Raised IndexError, st1, w1,
                             [CallOptimize h model, CallGetOptimum h, CallGetOptimizer h])
                        | xopt # _ \<Rightarrow>
                            (Done,
                             st1\<lparr>result := Some \<lparr>res_xopt = xopt, res_yopt = yopt, res_elapsed = elapsed\<rparr>\<rparr>,
                             w1,
                             [CallOptimize h model, CallGetOptimum h, CallGetOptimizer h]))))"

text \<open>Lines 152-174 together: the controller of one execution.\<close>

definition controller ::
  "('h, 'w, 'e, 'p, 'o) pyddsbb \<Rightarrow> ('w \<Rightarrow> real) \<Rightarrow> inputs \<Rightarrow> 'p \<Rightarrow>
     'h session_state \<Rightarrow> 'w \<Rightarrow> 'e outcome \<times> 'h session_state \<times> 'w \<times> ('h, 'p) call list" where
  "controller lib time_time inp model st w =
     (let (e, should_run, st1, w1, tr1) = dispatch lib inp st w
      in case e of
           Some x \<Rightarrow> (Raised (LibraryError x), st1, w1, tr1)
         | None \<Rightarrow>
             (let (out, st2, w2, tr2) = run_block lib time_time inp model should_run st1 w1
              in (out, st2, w2, tr1 @ tr2)))"


text \<open>The four components of what an execution returns.\<close>

definition outcome_of :: "'a \<times> 'b \<times> 'c \<times> 'd \<Rightarrow> 'a" where
  "outcome_of r = fst r"

definition state_of :: "'a \<times> 'b \<times> 'c \<times> 'd \<Rightarrow> 'b" where
  "state_of r = fst (snd r)"

definition world_of :: "'a \<times> 'b \<times> 'c \<times> 'd \<Rightarrow> 'c" where
  "world_of r = fst (snd (snd r))"

definition calls_of :: "'a \<times> 'b \<times> 'c \<times> 'd \<Rightarrow> 'd" where
  "calls_of r = snd (snd (snd r))"

subsection \<open>The fitting demo: \<^verbatim>\<open>mse\<close> and \<^verbatim>\<open>run_pyddsbb\<close> (lines 71-92)\<close>





subsection \<open>The budget formula as the specification words it\<close>




subsection \<open>A small stand-in for the library, for concrete executions\<close>

text \<open>
  Any implementation of the library's interface can stand behind the controller. The
  stand-in below keeps a clock, a count of finished optimiser invocations, the number
  of solvers built and the incumbent. A problem is the list of its bounds. Optimising
  takes one second more with every invocation and reports the lower bounds as best
  input and their sum as best value; resuming takes one second and improves the best
  value by one.
\<close>

record toy_world =
  clock :: real
  invocations :: nat
  solvers_built :: nat
  best_input :: "real list"
  best_value :: real

text \<open>
  The exceptions of the library that the executions below meet: a failure inside the
  optimiser, and the error of the problem class for unacceptable bounds.
\<close>

datatype library_exception = SolverFailure | InvalidDomain

definition toy_world0 :: toy_world where
  "toy_world0 =
     \<lparr> clock = 0, invocations = 0, solvers_built = 0, best_input = [], best_value = 0 \<rparr>"

definition toy_library ::
  "(nat, toy_world, library_exception, (real \<times> real) list, 'o) pyddsbb" where
  "toy_library =
     \<lparr> Problem = [],
       add_objective = (\<lambda>obj s p. Inr p),
       add_variable = (\<lambda>lb ub p. Inr (p @ [(lb, ub)])),
       DDSBB = (\<lambda>args w. (solvers_built w, w\<lparr>solvers_built := Suc (solvers_built w)\<rparr>)),
       optimize = (\<lambda>h p w.
         (None, w\<lparr> clock := clock w + 1 + real (invocations w),
                   invocations := Suc (invocations w),
                   best_input := map fst p,
                   best_value := sum_list (map fst p) \<rparr>)),
       resume = (\<lambda>h stop w.
         (None, w\<lparr> clock := clock w + 1,
                   invocations := Suc (invocations w),
                   best_value := best_value w - 1 \<rparr>)),
       get_optimum = (\<lambda>h w. best_value w),
       get_optimizer = (\<lambda>h w. best_input w) \<rparr>"

text \<open>The stand-in behind the minimisation demo.\<close>

definition toy ::
  "(nat, toy_world, library_exception, (real \<times> real) list, objective) pyddsbb" where
  "toy = toy_library"

text \<open>The same stand-in with an optimiser that raises after one second.\<close>

definition failing_toy ::
  "(nat, toy_world, library_exception, (real \<times> real) list, objective) pyddsbb" where
  "failing_toy =
     toy\<lparr> optimize := (\<lambda>h p w. (Some SolverFailure, w\<lparr>clock := clock w + 1\<rparr>)) \<rparr>"

text \<open>
  Modelled from the spec: the method \<^verbatim>\<open>add_variable\<close> of the problem class
  \<^verbatim>\<open>PyDDSBB.DDSBBModel.Problem\<close>, which belongs to this repository's library but is
  not among the source files. Section 4.2 of the specification: the Problem Descriptor
  "validates domain bounds (lower finite < upper finite)" and "construction fails with
  an InvalidDomain error if bounds are non-finite or inverted". A problem is the list
  of the bounds added so far. Every real is finite, so the order of the two bounds is
  all there is to check.
\<close>

definition spec_add_variable ::
  "real \<Rightarrow> real \<Rightarrow> (real \<times> real) list \<Rightarrow> library_exception + (real \<times> real) list" where
  "spec_add_variable lb ub p = (if lb < ub then Inr (p @ [(lb, ub)]) else Inl InvalidDomain)"

text \<open>The stand-in with the problem class of the specification.\<close>

definition strict_toy_library ::
  "(nat, toy_world, library_exception, (real \<times> real) list, 'o) pyddsbb" where
  "strict_toy_library = toy_library\<lparr> add_variable := spec_add_variable \<rparr>"

definition strict_toy ::
  "(nat, toy_world, library_exception, (real \<times> real) list, objective) pyddsbb" where
  "strict_toy = strict_toy_library"

definition strict_toy_fit ::
  "(nat, toy_world, library_exception, (real \<times> real) list, real list \<Rightarrow> real) pyddsbb" where
  "strict_toy_fit = strict_toy_library"

text \<open>The widget defaults of lines 84-107.\<close>

definition default_inputs :: inputs where
  "default_inputs =
     \<lparr> kind = KSin2pix, x_min = - 1, x_max = 1, seed = 42, noise_std = 0, n_init = 12,
       split_method = Equal_bisection, variable_selection = Longest_side,
       multifidelity = False, sense = Minimize, abs_tol = 1 / 1000, rel_tol = 1 / 1000,
       min_bound = 1 / 100, sampling_limit = 800, time_limit = 20,
       auto_run = False, run_btn = False, resume_btn = False \<rparr>"

text \<open>A session right after one explicit run of the defaults on the stand-in.\<close>

definition session_after_run :: "nat session_state" where
  "session_after_run =
     \<lparr> solver = Some 0, last_cfg = Some (cfg_of default_inputs),
       result = Some \<lparr> res_xopt = - 1, res_yopt = - 1, res_elapsed = 1 \<rparr> \<rparr>"

definition world_after_run :: toy_world where
  "world_after_run =
     \<lparr> clock = 1, invocations = 1, solvers_built = 1, best_input = [- 1],
       best_value = - 1 \<rparr>"

subsection \<open>Determinism of a library, for reproducibility\<close>



section \<open>Properties\<close>

subsection \<open>Helper lemmas\<close>



lemmas tuple_defs = outcome_of_def state_of_def world_of_def calls_of_def

text \<open>The controller on its two replacing branches.\<close>

lemma controller_replace:
  assumes "run_btn inp \<or> (auto_run inp \<and> Some (cfg_of inp) \<noteq> last_cfg st)"
    and "new_solver lib inp w = (h, w1)"
  shows "controller lib tt inp model st w =
           (let (out, st2, w2, tr) =
                  run_block lib tt inp model True (st\<lparr>solver := Some h\<rparr>) w1
            in (out, st2, w2, CallDDSBB (new_solver_args inp) # tr))"
  using assms by (auto simp: controller_def dispatch_def split: prod.splits)

lemma run_block_cases:
  assumes "solver st = Some h" and "optimize lib h model w = (e, w1)"
  shows "run_block lib tt inp model True st w =
    (case e of
       Some x \<Rightarrow> (Raised (LibraryError x), st\<lparr>last_cfg := Some (cfg_of inp)\<rparr>, w1,
                   [CallOptimize h model])
     | None \<Rightarrow>
        (case get_optimizer lib h w1 of
           [] \<Rightarrow> (Raised IndexError, st\<lparr>last_cfg := Some (cfg_of inp)\<rparr>, w1,
                   [CallOptimize h model, CallGetOptimum h, CallGetOptimizer h])
         | xo # rest \<Rightarrow>
             (Done,
              st\<lparr>last_cfg := Some (cfg_of inp),
                 result := Some \<lparr>res_xopt = xo, res_yopt = get_optimum lib h w1,
                                 res_elapsed = tt w1 - tt w\<rparr>\<rparr>,
              w1, [CallOptimize h model, CallGetOptimum h, CallGetOptimizer h])))"
  using assms by (simp add: run_block_def Let_def split: option.splits list.splits)

lemma run_block_raised_result:
  "outcome_of (run_block lib tt inp model b st w) \<noteq> Done \<Longrightarrow>
     result (state_of (run_block lib tt inp model b st w)) = result st"
  by (auto simp: run_block_def tuple_defs Let_def split: option.splits list.splits prod.splits if_splits)

lemma dispatch_result:
  "dispatch lib inp st w = (e, b, st1, w1, tr) \<Longrightarrow> result st1 = result st"
  by (auto simp: dispatch_def Let_def split: option.splits prod.splits if_splits)

lemma controller_raised_result:
  "outcome_of (controller lib tt inp model st w) \<noteq> Done \<Longrightarrow>
     result (state_of (controller lib tt inp model st w)) = result st"
proof -
  obtain e b st1 w1 tr1 where d: "dispatch lib inp st w = (e, b, st1, w1, tr1)"
    by (metis prod_cases5)
  assume ne: "outcome_of (controller lib tt inp model st w) \<noteq> Done"
  show ?thesis
  proof (cases e)
    case (Some x)
    with d show ?thesis
      using dispatch_result[OF d] by (simp add: controller_def tuple_defs)
  next
    case None
    obtain out st2 w2 tr2 where r: "run_block lib tt inp model b st1 w1 = (out, st2, w2, tr2)"
      by (metis prod_cases4)
    from None d r have c: "controller lib tt inp model st w = (out, st2, w2, tr1 @ tr2)"
      by (simp add: controller_def)
    with ne have "out \<noteq> Done" by (simp add: tuple_defs)
    then have "result st2 = result st1"
      using run_block_raised_result[of lib tt inp model b st1 w1] r by (simp add: tuple_defs)
    with c dispatch_result[OF d] show ?thesis by (simp add: tuple_defs)
  qed
qed

text \<open>A replacing branch followed by the run, by the outcome of the optimiser.\<close>

lemma controller_replace_run:
  assumes fire: "run_btn inp \<or> (auto_run inp \<and> Some (cfg_of inp) \<noteq> last_cfg st)"
    and ns: "new_solver lib inp w = (h, w1)"
    and opt: "optimize lib h model w1 = (e, w2)"
  shows "controller lib tt inp model st w =
    (case e of
       Some x \<Rightarrow>
         (Raised (LibraryError x), st\<lparr>solver := Some h, last_cfg := Some (cfg_of inp)\<rparr>, w2,
          [CallDDSBB (new_solver_args inp), CallOptimize h model])
     | None \<Rightarrow>
        (case get_optimizer lib h w2 of
           [] \<Rightarrow>
             (Raised IndexError, st\<lparr>solver := Some h, last_cfg := Some (cfg_of inp)\<rparr>, w2,
              [CallDDSBB (new_solver_args inp), CallOptimize h model,
               CallGetOptimum h, CallGetOptimizer h])
         | xo # rest \<Rightarrow>
             (Done,
              st\<lparr>solver := Some h, last_cfg := Some (cfg_of inp),
                 result := Some \<lparr>res_xopt = xo, res_yopt = get_optimum lib h w2,
                                 res_elapsed = tt w2 - tt w1\<rparr>\<rparr>,
              w2,
              [CallDDSBB (new_solver_args inp), CallOptimize h model,
               CallGetOptimum h, CallGetOptimizer h])))"
proof -
  have sol: "solver (st\<lparr>solver := Some h\<rparr>) = Some h" by simp
  show ?thesis
    unfolding controller_replace[OF fire ns, of tt model] run_block_cases[OF sol opt, of tt inp]
    by (simp split: option.splits list.splits)
qed

text \<open>
  The constructor arguments and the configuration, written out in the widget values.
\<close>

lemma new_solver_args_eq:
  "new_solver_args inp =
     \<lparr>arg_n_init = n_init inp, arg_split_method = split_method inp,
      arg_variable_selection = variable_selection inp,
      arg_multifidelity = multifidelity inp,
      arg_stop_option =
        \<lparr>so_absolute_tolerance = abs_tol inp, so_relative_tolerance = rel_tol inp,
         so_minimum_bound = min_bound inp, so_sampling_limit = sampling_limit inp,
         so_time_limit = time_limit inp\<rparr>,
      arg_sense = Some (sense inp)\<rparr>"
  by (simp add: new_solver_args_def stop_option_of_def)

lemma cfg_of_eq:
  "cfg_of inp =
     \<lparr>cfg_kind = kind inp, cfg_x_min = x_min inp, cfg_x_max = x_max inp,
      cfg_seed = seed inp, cfg_noise_std = noise_std inp, cfg_n_init = n_init inp,
      cfg_split_method = split_method inp,
      cfg_variable_selection = variable_selection inp,
      cfg_multifidelity = multifidelity inp,
      cfg_stop_option =
        \<lparr>so_absolute_tolerance = abs_tol inp, so_relative_tolerance = rel_tol inp,
         so_minimum_bound = min_bound inp, so_sampling_limit = sampling_limit inp,
         so_time_limit = time_limit inp\<rparr>,
      cfg_sense = sense inp\<rparr>"
  by (simp add: cfg_of_def stop_option_of_def)




text \<open>The controller on its resume branch.\<close>

lemma controller_resume:
  assumes "resume_btn inp" and "solver st = Some h" and "\<not> run_btn inp"
    and "\<not> (auto_run inp \<and> Some (cfg_of inp) \<noteq> last_cfg st)"
    and "resume lib h (new_stop inp) w = (e, w1)"
  shows "controller lib tt inp model st w =
           ((case e of None \<Rightarrow> Done | Some x \<Rightarrow> Raised (LibraryError x)), st, w1,
            [CallResume h (new_stop inp)])"
  using assms
  by (auto simp: controller_def dispatch_def run_block_def split: option.splits)


text \<open>Unfolding of the stand-in library and the concrete inputs.\<close>

lemmas toy_simps = toy_library_def toy_def failing_toy_def
  strict_toy_library_def strict_toy_def strict_toy_fit_def toy_world0_def default_inputs_def
  session_after_run_def world_after_run_def initial_session_def
  cfg_of_def stop_option_of_def new_solver_def new_solver_args_def

subsection \<open>The objective without noise\<close>

text \<open>
  Claim C8. With \<open>noise_std = 0\<close> the objective returns exactly the base function's
  value and leaves the generator as it was: for one call of \<^verbatim>\<open>noisy_eval\<close>, for any
  sequence of calls sharing one generator, and for the closure \<^verbatim>\<open>objective\<close> the
  script hands to the library. No draw is made, whatever the generator is.
\<close>

theorem noisy_eval_zero_noise:
  "noisy_eval normal f x 0 rng = (f x, rng) \<and>
   noisy_evals normal f xs 0 rng = (map f xs, rng) \<and>
   objective_call normal (obj\<lparr>obj_noise_std := 0\<rparr>) (x # rest) rng = (Inr (obj_f obj x), rng)"
proof -
  have one: "\<And>y g. noisy_eval normal f y 0 g = (f y, g)"
    by (simp add: noisy_eval_def)
  have many: "noisy_evals normal f xs 0 rng = (map f xs, rng)"
    by (induction xs arbitrary: rng) (simp_all add: one)
  have call: "objective_call normal (obj\<lparr>obj_noise_std := 0\<rparr>) (x # rest) rng = (Inr (obj_f obj x), rng)"
    by (simp add: objective_call_def noisy_eval_def)
  from one many call show ?thesis by simp
qed

subsection \<open>The run\<close>

text \<open>
  Claim C3. The run calls \<^verbatim>\<open>optimize\<close> on the held solver with the current problem.
  If the optimiser raises, the exception is what the run ends with, \<^verbatim>\<open>optimize\<close> is
  the only call made, and the stored result is the one from before. If it completes
  and reports a best input, the stored result is replaced, whatever it was, by the
  first component of the best input, the best value and the clock difference across
  the call. More generally any execution of the controller that ends with an exception
  leaves the stored result untouched.
\<close>

theorem run_stores_result_or_propagates:
  assumes "solver st = Some h"
  shows
    "(optimize lib h model w = (Some x, w1) \<longrightarrow>
        outcome_of (run_block lib tt inp model True st w) = Raised (LibraryError x) \<and>
        result (state_of (run_block lib tt inp model True st w)) = result st \<and>
        calls_of (run_block lib tt inp model True st w) = [CallOptimize h model]) \<and>
     (optimize lib h model w = (None, w1) \<longrightarrow> get_optimizer lib h w1 = xo # rest \<longrightarrow>
        outcome_of (run_block lib tt inp model True st w) = Done \<and>
        result (state_of (run_block lib tt inp model True st w)) =
          Some \<lparr>res_xopt = xo, res_yopt = get_optimum lib h w1,
                res_elapsed = tt w1 - tt w\<rparr> \<and>
        calls_of (run_block lib tt inp model True st w) =
          [CallOptimize h model, CallGetOptimum h, CallGetOptimizer h]) \<and>
     (outcome_of (controller lib tt inp model st w) \<noteq> Done \<longrightarrow>
        result (state_of (controller lib tt inp model st w)) = result st)"
proof (intro conjI impI)
  assume o: "optimize lib h model w = (Some x, w1)"
  note rb = run_block_cases[OF assms o, of tt inp]
  show "outcome_of (run_block lib tt inp model True st w) = Raised (LibraryError x)"
    by (simp add: rb tuple_defs)
  show "result (state_of (run_block lib tt inp model True st w)) = result st"
    by (simp add: rb tuple_defs)
  show "calls_of (run_block lib tt inp model True st w) = [CallOptimize h model]"
    by (simp add: rb tuple_defs)
next
  assume o: "optimize lib h model w = (None, w1)" and g: "get_optimizer lib h w1 = xo # rest"
  note rb = run_block_cases[OF assms o, of tt inp]
  show "outcome_of (run_block lib tt inp model True st w) = Done"
    by (simp add: rb g tuple_defs)
  show "result (state_of (run_block lib tt inp model True st w)) =
          Some \<lparr>res_xopt = xo, res_yopt = get_optimum lib h w1, res_elapsed = tt w1 - tt w\<rparr>"
    by (simp add: rb g tuple_defs)
  show "calls_of (run_block lib tt inp model True st w) =
          [CallOptimize h model, CallGetOptimum h, CallGetOptimizer h]"
    by (simp add: rb g tuple_defs)
next
  assume "outcome_of (controller lib tt inp model st w) \<noteq> Done"
  then show "result (state_of (controller lib tt inp model st w)) = result st"
    by (rule controller_raised_result)
qed

theorem run_stores_result_or_propagates_witness:
  "outcome_of (run_block failing_toy clock (default_inputs\<lparr>run_btn := True\<rparr>) [(- 1, 1)] True
       session_after_run world_after_run) = Raised (LibraryError SolverFailure) \<and>
   result (state_of (run_block failing_toy clock (default_inputs\<lparr>run_btn := True\<rparr>) [(- 1, 1)]
       True session_after_run world_after_run)) =
     Some \<lparr>res_xopt = - 1, res_yopt = - 1, res_elapsed = 1\<rparr> \<and>
   result (state_of (run_block toy clock (default_inputs\<lparr>run_btn := True\<rparr>) [(- 1, 1)] True
       session_after_run world_after_run)) =
     Some \<lparr>res_xopt = - 1, res_yopt = - 1, res_elapsed = 2\<rparr>"
proof -
  have s: "solver session_after_run = Some 0" by (simp add: session_after_run_def)
  have f: "optimize failing_toy 0 [(- 1, 1)] world_after_run =
             (Some SolverFailure, world_after_run\<lparr>clock := 2\<rparr>)"
    by (simp add: toy_simps)
  have t: "optimize toy 0 [(- 1, 1)] world_after_run =
             (None, world_after_run\<lparr>clock := 3, invocations := 2\<rparr>)"
    by (simp add: toy_simps)
  have g: "get_optimizer toy 0 (world_after_run\<lparr>clock := 3, invocations := 2\<rparr>) = - 1 # []"
    by (simp add: toy_simps)
  note th1 = run_stores_result_or_propagates[OF s, where lib = failing_toy
      and model = "[(- 1, 1)]" and w = world_after_run and x = SolverFailure
      and ?w1.0 = "world_after_run\<lparr>clock := 2\<rparr>" and tt = clock
      and inp = "default_inputs\<lparr>run_btn := True\<rparr>" and xo = 0 and rest = "[]"]
  from th1 f
  have a: "outcome_of (run_block failing_toy clock (default_inputs\<lparr>run_btn := True\<rparr>) [(- 1, 1)] True
       session_after_run world_after_run) = Raised (LibraryError SolverFailure) \<and>
     result (state_of (run_block failing_toy clock (default_inputs\<lparr>run_btn := True\<rparr>) [(- 1, 1)]
       True session_after_run world_after_run)) = result session_after_run"
    by blast
  note th2 = run_stores_result_or_propagates[OF s, where lib = toy
      and model = "[(- 1, 1)]" and w = world_after_run and x = SolverFailure
      and ?w1.0 = "world_after_run\<lparr>clock := 3, invocations := 2\<rparr>" and tt = clock
      and inp = "default_inputs\<lparr>run_btn := True\<rparr>" and xo = "- 1" and rest = "[]"]
  from th2 t g
  have b: "result (state_of (run_block toy clock (default_inputs\<lparr>run_btn := True\<rparr>) [(- 1, 1)] True
       session_after_run world_after_run)) =
     Some \<lparr>res_xopt = - 1, res_yopt = get_optimum toy 0 (world_after_run\<lparr>clock := 3, invocations := 2\<rparr>),
        res_elapsed = clock (world_after_run\<lparr>clock := 3, invocations := 2\<rparr>) - clock world_after_run\<rparr>"
    by blast
  from a b show ?thesis by (simp add: toy_simps)
qed

subsection \<open>Explicit run\<close>

text \<open>
  Claim C5. When the run button is pressed, whatever the session holds and whatever
  else is set: the solver held afterwards is the one the library's constructor returns
  for the current widget values; the stored configuration is the current one;
  \<^verbatim>\<open>optimize\<close> is called on that new solver with the current problem, in the world
  the constructor left, and the world afterwards is the one this call leaves. When the
  optimiser completes and reports a best input, the stored result is the new one (first
  component of the best input, best value, clock difference across the call); when it
  raises, the execution ends with that exception. The calls are the constructor, then
  \<^verbatim>\<open>optimize\<close> on the new solver, then the two read-backs on it. The stored
  configuration plays no part, so this holds also when it equals the current one.
\<close>

theorem explicit_run_replaces_and_runs:
  assumes "run_btn inp"
    and "DDSBB lib
           \<lparr>arg_n_init = n_init inp, arg_split_method = split_method inp,
            arg_variable_selection = variable_selection inp,
            arg_multifidelity = multifidelity inp,
            arg_stop_option =
              \<lparr>so_absolute_tolerance = abs_tol inp, so_relative_tolerance = rel_tol inp,
               so_minimum_bound = min_bound inp, so_sampling_limit = sampling_limit inp,
               so_time_limit = time_limit inp\<rparr>,
            arg_sense = Some (sense inp)\<rparr> w = (h, w1)"
    and "optimize lib h model w1 = (e, w2)"
  shows
    "solver (state_of (controller lib tt inp model st w)) = Some h \<and>
     last_cfg (state_of (controller lib tt inp model st w)) =
       Some \<lparr>cfg_kind = kind inp, cfg_x_min = x_min inp, cfg_x_max = x_max inp,
             cfg_seed = seed inp, cfg_noise_std = noise_std inp, cfg_n_init = n_init inp,
             cfg_split_method = split_method inp,
             cfg_variable_selection = variable_selection inp,
             cfg_multifidelity = multifidelity inp,
             cfg_stop_option =
               \<lparr>so_absolute_tolerance = abs_tol inp, so_relative_tolerance = rel_tol inp,
                so_minimum_bound = min_bound inp, so_sampling_limit = sampling_limit inp,
                so_time_limit = time_limit inp\<rparr>,
             cfg_sense = sense inp\<rparr> \<and>
     world_of (controller lib tt inp model st w) = w2 \<and>
     outcome_of (controller lib tt inp model st w) =
       (case e of
          Some x \<Rightarrow> Raised (LibraryError x)
        | None \<Rightarrow> (case get_optimizer lib h w2 of [] \<Rightarrow> Raised IndexError | xo # rest \<Rightarrow> Done)) \<and>
     result (state_of (controller lib tt inp model st w)) =
       (case e of
          Some x \<Rightarrow> result st
        | None \<Rightarrow>
            (case get_optimizer lib h w2 of
               [] \<Rightarrow> result st
             | xo # rest \<Rightarrow>
                 Some \<lparr>res_xopt = xo, res_yopt = get_optimum lib h w2,
                       res_elapsed = tt w2 - tt w1\<rparr>)) \<and>
     calls_of (controller lib tt inp model st w) =
       CallDDSBB
         \<lparr>arg_n_init = n_init inp, arg_split_method = split_method inp,
          arg_variable_selection = variable_selection inp,
          arg_multifidelity = multifidelity inp,
          arg_stop_option =
            \<lparr>so_absolute_tolerance = abs_tol inp, so_relative_tolerance = rel_tol inp,
             so_minimum_bound = min_bound inp, so_sampling_limit = sampling_limit inp,
             so_time_limit = time_limit inp\<rparr>,
          arg_sense = Some (sense inp)\<rparr> #
       CallOptimize h model #
       (case e of Some x \<Rightarrow> [] | None \<Rightarrow> [CallGetOptimum h, CallGetOptimizer h])"
proof -
  from assms(1) have fire: "run_btn inp \<or> (auto_run inp \<and> Some (cfg_of inp) \<noteq> last_cfg st)"
    by simp
  from assms(2) have ns: "new_solver lib inp w = (h, w1)"
    by (simp add: new_solver_def new_solver_args_eq)
  show ?thesis
    unfolding controller_replace_run[OF fire ns assms(3), where tt = tt] new_solver_args_eq cfg_of_eq
    by (simp add: tuple_defs split: option.splits list.splits)
qed

text \<open>
  The claim at a session that already holds solver 0, built from the very same
  configuration: solver 1 replaces it, is optimised, and a new result is stored.
\<close>

theorem explicit_run_replaces_and_runs_witness:
  "solver (state_of (controller toy clock (default_inputs\<lparr>run_btn := True\<rparr>) [(- 1, 1)]
       session_after_run world_after_run)) = Some 1 \<and>
   solver session_after_run = Some 0 \<and>
   last_cfg (state_of (controller toy clock (default_inputs\<lparr>run_btn := True\<rparr>) [(- 1, 1)]
       session_after_run world_after_run)) = last_cfg session_after_run \<and>
   world_of (controller toy clock (default_inputs\<lparr>run_btn := True\<rparr>) [(- 1, 1)]
       session_after_run world_after_run) =
     \<lparr>clock = 3, invocations = 2, solvers_built = 2, best_input = [- 1], best_value = - 1\<rparr> \<and>
   outcome_of (controller toy clock (default_inputs\<lparr>run_btn := True\<rparr>) [(- 1, 1)]
       session_after_run world_after_run) = Done \<and>
   result (state_of (controller toy clock (default_inputs\<lparr>run_btn := True\<rparr>) [(- 1, 1)]
       session_after_run world_after_run)) =
     Some \<lparr>res_xopt = - 1, res_yopt = - 1, res_elapsed = 2\<rparr>"
proof -
  let ?inp = "default_inputs\<lparr>run_btn := True\<rparr>"
  let ?w1 = "world_after_run\<lparr>solvers_built := 2\<rparr>"
  let ?w2 = "\<lparr>clock = 3, invocations = 2, solvers_built = 2, best_input = [- 1],
              best_value = - 1\<rparr>"
  have r: "run_btn ?inp" by simp
  have n: "DDSBB toy
           \<lparr>arg_n_init = n_init ?inp, arg_split_method = split_method ?inp,
            arg_variable_selection = variable_selection ?inp,
            arg_multifidelity = multifidelity ?inp,
            arg_stop_option =
              \<lparr>so_absolute_tolerance = abs_tol ?inp, so_relative_tolerance = rel_tol ?inp,
               so_minimum_bound = min_bound ?inp, so_sampling_limit = sampling_limit ?inp,
               so_time_limit = time_limit ?inp\<rparr>,
            arg_sense = Some (sense ?inp)\<rparr> world_after_run = (1, ?w1)"
    by (simp add: toy_simps)
  have o: "optimize toy 1 [(- 1, 1)] ?w1 = (None, ?w2)"
    by (simp add: toy_simps)
  have g: "get_optimizer toy 1 ?w2 = [- 1]" "get_optimum toy 1 ?w2 = - 1"
    by (simp_all add: toy_simps)
  note th = explicit_run_replaces_and_runs[OF r n o, where tt = clock and st = session_after_run]
  from th g show ?thesis
    by (simp add: toy_simps)
qed

subsection \<open>Auto-run on a changed configuration\<close>

text \<open>
  Claim C4. With auto-run enabled, when no configuration is stored yet or the stored
  one differs from the current widget values in at least one key (any of the ten
  top-level keys or of the five stopping criteria): the solver held afterwards is the
  one the library's constructor returns for the current widget values, in place of the
  old one; the stored configuration is the current one; \<^verbatim>\<open>optimize\<close> is called on
  the new solver in the world the constructor left, so nothing is invoked in between,
  and the world afterwards is the one this call leaves; the result is stored or the
  exception ends the execution as in an explicit run. The calls of the execution are
  the constructor, \<^verbatim>\<open>optimize\<close> on the new solver and the two read-backs on it:
  none goes to the old solver.
\<close>

theorem auto_run_replaces_stale_handle:
  assumes "auto_run inp"
    and "last_cfg st = None \<or>
         (\<exists>c0. last_cfg st = Some c0 \<and>
            (cfg_kind c0 \<noteq> kind inp \<or> cfg_x_min c0 \<noteq> x_min inp \<or>
             cfg_x_max c0 \<noteq> x_max inp \<or> cfg_seed c0 \<noteq> seed inp \<or>
             cfg_noise_std c0 \<noteq> noise_std inp \<or> cfg_n_init c0 \<noteq> n_init inp \<or>
             cfg_split_method c0 \<noteq> split_method inp \<or>
             cfg_variable_selection c0 \<noteq> variable_selection inp \<or>
             cfg_multifidelity c0 \<noteq> multifidelity inp \<or>
             so_absolute_tolerance (cfg_stop_option c0) \<noteq> abs_tol inp \<or>
             so_relative_tolerance (cfg_stop_option c0) \<noteq> rel_tol inp \<or>
             so_minimum_bound (cfg_stop_option c0) \<noteq> min_bound inp \<or>
             so_sampling_limit (cfg_stop_option c0) \<noteq> sampling_limit inp \<or>
             so_time_limit (cfg_stop_option c0) \<noteq> time_limit inp \<or>
             cfg_sense c0 \<noteq> sense inp))"
    and "DDSBB lib
           \<lparr>arg_n_init = n_init inp, arg_split_method = split_method inp,
            arg_variable_selection = variable_selection inp,
            arg_multifidelity = multifidelity inp,
            arg_stop_option =
              \<lparr>so_absolute_tolerance = abs_tol inp, so_relative_tolerance = rel_tol inp,
               so_minimum_bound = min_bound inp, so_sampling_limit = sampling_limit inp,
               so_time_limit = time_limit inp\<rparr>,
            arg_sense = Some (sense inp)\<rparr> w = (h, w1)"
    and "optimize lib h model w1 = (e, w2)"
  shows
    "solver (state_of (controller lib tt inp model st w)) = Some h \<and>
     last_cfg (state_of (controller lib tt inp model st w)) =
       Some \<lparr>cfg_kind = kind inp, cfg_x_min = x_min inp, cfg_x_max = x_max inp,
             cfg_seed = seed inp, cfg_noise_std = noise_std inp, cfg_n_init = n_init inp,
             cfg_split_method = split_method inp,
             cfg_variable_selection = variable_selection inp,
             cfg_multifidelity = multifidelity inp,
             cfg_stop_option =
               \<lparr>so_absolute_tolerance = abs_tol inp, so_relative_tolerance = rel_tol inp,
                so_minimum_bound = min_bound inp, so_sampling_limit = sampling_limit inp,
                so_time_limit = time_limit inp\<rparr>,
             cfg_sense = sense inp\<rparr> \<and>
     world_of (controller lib tt inp model st w) = w2 \<and>
     outcome_of (controller lib tt inp model st w) =
       (case e of
          Some x \<Rightarrow> Raised (LibraryError x)
        | None \<Rightarrow> (case get_optimizer lib h w2 of [] \<Rightarrow> Raised IndexError | xo # rest \<Rightarrow> Done)) \<and>
     result (state_of (controller lib tt inp model st w)) =
       (case e of
          Some x \<Rightarrow> result st
        | None \<Rightarrow>
            (case get_optimizer lib h w2 of
               [] \<Rightarrow> result st
             | xo # rest \<Rightarrow>
                 Some \<lparr>res_xopt = xo, res_yopt = get_optimum lib h w2,
                       res_elapsed = tt w2 - tt w1\<rparr>)) \<and>
     calls_of (controller lib tt inp model st w) =
       CallDDSBB
         \<lparr>arg_n_init = n_init inp, arg_split_method = split_method inp,
          arg_variable_selection = variable_selection inp,
          arg_multifidelity = multifidelity inp,
          arg_stop_option =
            \<lparr>so_absolute_tolerance = abs_tol inp, so_relative_tolerance = rel_tol inp,
             so_minimum_bound = min_bound inp, so_sampling_limit = sampling_limit inp,
             so_time_limit = time_limit inp\<rparr>,
          arg_sense = Some (sense inp)\<rparr> #
       CallOptimize h model #
       (case e of Some x \<Rightarrow> [] | None \<Rightarrow> [CallGetOptimum h, CallGetOptimizer h])"
proof -
  from assms(2) have "Some (cfg_of inp) \<noteq> last_cfg st"
    by (auto simp: cfg_of_def stop_option_of_def)
  with assms(1)
  have fire: "run_btn inp \<or> (auto_run inp \<and> Some (cfg_of inp) \<noteq> last_cfg st)"
    by simp
  from assms(3) have ns: "new_solver lib inp w = (h, w1)"
    by (simp add: new_solver_def new_solver_args_eq)
  show ?thesis
    unfolding controller_replace_run[OF fire ns assms(4), where tt = tt] new_solver_args_eq cfg_of_eq
    by (simp add: tuple_defs split: option.splits list.splits)
qed

text \<open>
  The claim where only the noise level was changed after a run: solver 1 replaces
  solver 0, it is the solver optimised, and the new result is stored under the new
  configuration.
\<close>

theorem auto_run_replaces_stale_handle_witness:
  "solver (state_of (controller toy clock (default_inputs\<lparr>noise_std := 1 / 10, auto_run := True\<rparr>)
       [(- 1, 1)] session_after_run world_after_run)) = Some 1 \<and>
   solver session_after_run = Some 0 \<and>
   last_cfg (state_of (controller toy clock (default_inputs\<lparr>noise_std := 1 / 10, auto_run := True\<rparr>)
       [(- 1, 1)] session_after_run world_after_run)) =
     Some (cfg_of (default_inputs\<lparr>noise_std := 1 / 10\<rparr>)) \<and>
   world_of (controller toy clock (default_inputs\<lparr>noise_std := 1 / 10, auto_run := True\<rparr>)
       [(- 1, 1)] session_after_run world_after_run) =
     \<lparr>clock = 3, invocations = 2, solvers_built = 2, best_input = [- 1], best_value = - 1\<rparr> \<and>
   result (state_of (controller toy clock (default_inputs\<lparr>noise_std := 1 / 10, auto_run := True\<rparr>)
       [(- 1, 1)] session_after_run world_after_run)) =
     Some \<lparr>res_xopt = - 1, res_yopt = - 1, res_elapsed = 2\<rparr> \<and>
   calls_of (controller toy clock (default_inputs\<lparr>noise_std := 1 / 10, auto_run := True\<rparr>)
       [(- 1, 1)] session_after_run world_after_run) =
     [CallDDSBB (new_solver_args default_inputs), CallOptimize 1 [(- 1, 1)],
      CallGetOptimum 1, CallGetOptimizer 1]"
proof -
  let ?inp = "default_inputs\<lparr>noise_std := 1 / 10, auto_run := True\<rparr>"
  let ?w1 = "world_after_run\<lparr>solvers_built := 2\<rparr>"
  let ?w2 = "\<lparr>clock = 3, invocations = 2, solvers_built = 2, best_input = [- 1],
              best_value = - 1\<rparr>"
  have a: "auto_run ?inp" by simp
  have d: "last_cfg session_after_run = None \<or>
         (\<exists>c0. last_cfg session_after_run = Some c0 \<and>
            (cfg_kind c0 \<noteq> kind ?inp \<or> cfg_x_min c0 \<noteq> x_min ?inp \<or>
             cfg_x_max c0 \<noteq> x_max ?inp \<or> cfg_seed c0 \<noteq> seed ?inp \<or>
             cfg_noise_std c0 \<noteq> noise_std ?inp \<or> cfg_n_init c0 \<noteq> n_init ?inp \<or>
             cfg_split_method c0 \<noteq> split_method ?inp \<or>
             cfg_variable_selection c0 \<noteq> variable_selection ?inp \<or>
             cfg_multifidelity c0 \<noteq> multifidelity ?inp \<or>
             so_absolute_tolerance (cfg_stop_option c0) \<noteq> abs_tol ?inp \<or>
             so_relative_tolerance (cfg_stop_option c0) \<noteq> rel_tol ?inp \<or>
             so_minimum_bound (cfg_stop_option c0) \<noteq> min_bound ?inp \<or>
             so_sampling_limit (cfg_stop_option c0) \<noteq> sampling_limit ?inp \<or>
             so_time_limit (cfg_stop_option c0) \<noteq> time_limit ?inp \<or>
             cfg_sense c0 \<noteq> sense ?inp))"
    by (simp add: toy_simps)
  have n: "DDSBB toy
           \<lparr>arg_n_init = n_init ?inp, arg_split_method = split_method ?inp,
            arg_variable_selection = variable_selection ?inp,
            arg_multifidelity = multifidelity ?inp,
            arg_stop_option =
              \<lparr>so_absolute_tolerance = abs_tol ?inp, so_relative_tolerance = rel_tol ?inp,
               so_minimum_bound = min_bound ?inp, so_sampling_limit = sampling_limit ?inp,
               so_time_limit = time_limit ?inp\<rparr>,
            arg_sense = Some (sense ?inp)\<rparr> world_after_run = (1, ?w1)"
    by (simp add: toy_simps)
  have o: "optimize toy 1 [(- 1, 1)] ?w1 = (None, ?w2)"
    by (simp add: toy_simps)
  have g: "get_optimizer toy 1 ?w2 = [- 1]" "get_optimum toy 1 ?w2 = - 1"
    by (simp_all add: toy_simps)
  note th = auto_run_replaces_stale_handle[OF a d n o, where tt = clock]
  from th g show ?thesis
    by (simp add: toy_simps)
qed

subsection \<open>Resume without a solver\<close>




subsection \<open>Resume with a solver\<close>

text \<open>
  Claim C1 asks for a freshly read result after a resume; the code does not produce
  one. When resume is requested while a solver is held, the run button is not pressed
  and auto-run does not fire, the controller calls \<^verbatim>\<open>resume\<close> of the held solver
  with the expanded stopping criteria, so that the world afterwards is the one this
  call leaves, and then leaves the whole session state as it was: the stored result is
  still the one from before the resume, whatever the solver reports now. The read-back
  of lines 172-174 happens on the run path only.
\<close>

theorem resume_leaves_result_stale:
  assumes "resume_btn inp" and "solver st = Some h" and "\<not> run_btn inp"
    and "\<not> (auto_run inp \<and> Some (cfg_of inp) \<noteq> last_cfg st)"
    and "resume lib h (new_stop inp) w = (e, w1)"
  shows
    "world_of (controller lib tt inp model st w) = w1 \<and>
     state_of (controller lib tt inp model st w) = st"
  by (simp add: controller_resume[OF assms] tuple_defs)

text \<open>
  After one explicit run of the defaults, a press of the resume button: the solver
  now reports the best value \<open>-2\<close>, the stored result still shows \<open>-1\<close>.
\<close>

theorem resume_leaves_result_stale_witness:
  "widget_ranges (default_inputs\<lparr>resume_btn := True\<rparr>) \<and>
   result (state_of (controller toy clock (default_inputs\<lparr>resume_btn := True\<rparr>) [(- 1, 1)]
       session_after_run world_after_run)) =
     Some \<lparr>res_xopt = - 1, res_yopt = - 1, res_elapsed = 1\<rparr> \<and>
   get_optimum toy 0 (world_of (controller toy clock (default_inputs\<lparr>resume_btn := True\<rparr>)
       [(- 1, 1)] session_after_run world_after_run)) = - 2 \<and>
   get_optimizer toy 0 (world_of (controller toy clock (default_inputs\<lparr>resume_btn := True\<rparr>)
       [(- 1, 1)] session_after_run world_after_run)) = [- 1]"
proof -
  let ?inp = "default_inputs\<lparr>resume_btn := True\<rparr>"
  let ?w1 = "world_after_run\<lparr>clock := 2, invocations := 2, best_value := - 2\<rparr>"
  have a: "resume_btn ?inp" by simp
  have b: "solver session_after_run = Some 0" by (simp add: session_after_run_def)
  have c: "\<not> run_btn ?inp" by (simp add: default_inputs_def)
  have d: "\<not> (auto_run ?inp \<and> Some (cfg_of ?inp) \<noteq> last_cfg session_after_run)"
    by (simp add: default_inputs_def)
  have r: "resume toy 0 (new_stop ?inp) world_after_run = (None, ?w1)"
    by (simp add: toy_simps)
  have wr: "widget_ranges ?inp" by (simp add: widget_ranges_def default_inputs_def)
  note th = resume_leaves_result_stale[OF a b c d r, where tt = clock and model = "[(- 1, 1)]"]
  from th wr show ?thesis
    by (simp add: toy_simps)
qed

subsection \<open>The budget of a resume\<close>




subsection \<open>Two explicit runs in a row\<close>




subsection \<open>Construction of the problem\<close>



end
